theory Spec2Isabelle
  imports Main
begin

section \<open>Schema-type cascade of \<open>infer-utilities.types.ts\<close>\<close>

text \<open>
  The source file consists of TypeScript type aliases: every alias is a function from
  types to a type, written with conditional types. A type argument is a value of the
  model, an alias is a HOL function, and a conditional type
  \<open>T extends infer X extends I ? A : B\<close> is a \<open>case\<close> on the shape of \<open>T\<close>.

  A type-parameter constraint such as \<open>Endpoint extends keyof Api["endpoints"]\<close> is
  checked by the compiler at every use of the alias; an argument that violates it is
  rejected with a diagnostic. The model makes that rejection a branch of the function:
  the alias returns \<open>Inl\<close> of an \<open>error\<close> and computes nothing.
\<close>

subsection \<open>Data model\<close>

type_synonym ProviderId = string

text \<open>
  Modelled from the spec: \<open>SchemaType\<close> (declared in \<open>schema-type.types\<close>) is only
  read through its \<open>_provider\<close> member, which identifies the provider in force. The
  member is declared optional, and the source strips the \<open>undefined\<close> of its declared
  type with \<open>NonNullable\<close>; the selector \<open>provider\<close> stands for
  \<open>NonNullable<T["_provider"]>\<close>.
\<close>

datatype SchemaType = SchemaType (provider: ProviderId)

text \<open>
  Modelled from the spec: \<open>ApiBaseMetadata\<close> (declared in \<open>api-spec.types\<close>) has at
  minimum an optional \<open>schemaType\<close>.
\<close>

datatype ApiBaseMetadata = ApiBaseMetadata (schemaType: "SchemaType option")

text \<open>
  Modelled from the spec: what can stand at a location of an endpoint. \<open>Parameter\<close> is
  a value of the shape \<open>ApiParameter\<close> (and of \<open>ApiDataParameter\<close>, which has the same
  shape): it has a \<open>schema\<close> and optional \<open>metadata\<close>. \<open>Schema\<close> is an opaque,
  provider-specific value that is not of that shape, and \<open>Undefined\<close> is the type of a
  member that was not declared. The aliases read \<open>metadata\<close> and \<open>schema\<close> only under
  the test \<open>extends ApiParameter\<close> (or \<open>extends ApiDataParameter\<close>), so they see nothing
  inside a value that fails it.
\<close>

datatype 's ApiValue =
    Undefined
  | Schema 's
  | Parameter (schema: "'s ApiValue") (metadata: "ApiBaseMetadata option")

text \<open>Modelled from the spec: \<open>ApiEntry\<close>, the five name-keyed entry kinds.\<close>

datatype ApiEntry = Params | Query | Headers | Cookies | Responses

text \<open>
  Modelled from the spec: \<open>ApiEndpoint\<close> has optional metadata, five collections that
  map a parameter name to what is declared under it, and a single optional body.
\<close>

record 's ApiEndpoint =
  metadata :: "ApiBaseMetadata option"
  params :: "string \<rightharpoonup> 's ApiValue"
  query :: "string \<rightharpoonup> 's ApiValue"
  headers :: "string \<rightharpoonup> 's ApiValue"
  cookies :: "string \<rightharpoonup> 's ApiValue"
  responses :: "string \<rightharpoonup> 's ApiValue"
  body :: "'s ApiValue"

text \<open>
  Modelled from the spec: \<open>ApiSpec\<close> has optional metadata and a mapping from endpoint
  name to endpoint.
\<close>

record 's ApiSpec =
  metadata :: "ApiBaseMetadata option"
  endpoints :: "string \<rightharpoonup> 's ApiEndpoint"

text \<open>
  The failures of section 7 of the spec. \<open>UnknownEndpoint\<close> and \<open>UnknownEntry\<close> are the
  violations of the constraints on \<open>Endpoint\<close> and \<open>EntryParam\<close>; \<open>ProviderNotFound\<close>
  can only come from the projection of a provider.
\<close>

datatype error = UnknownEndpoint | UnknownEntry | ProviderNotFound ProviderId

text \<open>The indexed access \<open>ComputedEndpoint[Entry]\<close> for an entry kind.\<close>

fun entry :: "'s ApiEndpoint \<Rightarrow> ApiEntry \<Rightarrow> (string \<rightharpoonup> 's ApiValue)" where
  "entry ep Params = params ep"
| "entry ep Query = query ep"
| "entry ep Headers = headers ep"
| "entry ep Cookies = cookies ep"
| "entry ep Responses = responses ep"

subsection \<open>The default schema type\<close>

text \<open>
  Modelled from the spec: the system default provider of section 3. The source imports
  it as \<open>ApiTypeScriptSchema\<close> from \<open>schema-type-ts\<close>, which says nothing more about it
  than that it is a \<open>SchemaType\<close>; the provider id written here is a placeholder, and no
  property below depends on it.
\<close>

definition ApiTypeScriptSchema :: SchemaType where
  "ApiTypeScriptSchema = SchemaType ''typescript''"

text \<open>
  Every alias declares \<open>DefaultSchemaType extends SchemaType = typeof ApiTypeScriptSchema\<close>:
  the argument may be omitted (\<open>None\<close>), and is then \<open>ApiTypeScriptSchema\<close>.
\<close>

definition DefaultSchemaType :: "SchemaType option \<Rightarrow> SchemaType" where
  "DefaultSchemaType given =
     (case given of None \<Rightarrow> ApiTypeScriptSchema | Some Type \<Rightarrow> Type)"

subsection \<open>Resolution of the schema type\<close>

text \<open>
  \<open>ApiGetEndpoint<Api, Endpoint>\<close> and \<open>ApiGetEndpointBody<Api, Endpoint>\<close> come from
  \<open>basic-utilities.types\<close>; they are read as the member of \<open>Api["endpoints"]\<close> named
  \<open>Endpoint\<close> and as the \<open>body\<close> member of that endpoint. The type parameters
  \<open>ComputedEndpoint\<close> and \<open>ComputedEntryParam\<close> have these as defaults and no alias of
  the file passes them; they are bound by the \<open>case\<close> that checks the constraint.

  Each alias hands its own \<open>DefaultSchemaType\<close> on to the alias of the next level, so
  the next level always receives a default.
\<close>

definition ApiGetSchemaType :: "'s ApiSpec \<Rightarrow> SchemaType option \<Rightarrow> SchemaType" where
  "ApiGetSchemaType Api dflt =
     (case ApiSpec.metadata Api of
        Some Meta \<Rightarrow>
          (case schemaType Meta of
             Some Type \<Rightarrow> Type
           | None \<Rightarrow> DefaultSchemaType dflt)
      | None \<Rightarrow> DefaultSchemaType dflt)"

definition ApiGetEndpointSchemaType ::
  "'s ApiSpec \<Rightarrow> string \<Rightarrow> SchemaType option \<Rightarrow> error + SchemaType" where
  "ApiGetEndpointSchemaType Api Endpoint dflt =
     (case endpoints Api Endpoint of
        None \<Rightarrow> Inl UnknownEndpoint
      | Some ComputedEndpoint \<Rightarrow>
          (case ApiEndpoint.metadata ComputedEndpoint of
             Some Meta \<Rightarrow>
               (case schemaType Meta of
                  Some Type \<Rightarrow> Inr Type
                | None \<Rightarrow> Inr (ApiGetSchemaType Api (Some (DefaultSchemaType dflt))))
           | None \<Rightarrow> Inr (ApiGetSchemaType Api (Some (DefaultSchemaType dflt)))))"

definition ApiGetEndpointBodySchemaType ::
  "'s ApiSpec \<Rightarrow> string \<Rightarrow> SchemaType option \<Rightarrow> error + SchemaType" where
  "ApiGetEndpointBodySchemaType Api Endpoint dflt =
     (case endpoints Api Endpoint of
        None \<Rightarrow> Inl UnknownEndpoint
      | Some ComputedEndpoint \<Rightarrow>
          (case body ComputedEndpoint of
             Parameter sch (Some Meta) \<Rightarrow>
               (case schemaType Meta of
                  Some Type \<Rightarrow> Inr Type
                | None \<Rightarrow>
                    ApiGetEndpointSchemaType Api Endpoint (Some (DefaultSchemaType dflt)))
           | Parameter sch None \<Rightarrow>
               ApiGetEndpointSchemaType Api Endpoint (Some (DefaultSchemaType dflt))
           | _ \<Rightarrow> ApiGetEndpointSchemaType Api Endpoint (Some (DefaultSchemaType dflt))))"

definition ApiGetEndpointEntrySchemaType ::
  "'s ApiSpec \<Rightarrow> string \<Rightarrow> ApiEntry \<Rightarrow> string \<Rightarrow> SchemaType option
     \<Rightarrow> error + SchemaType" where
  "ApiGetEndpointEntrySchemaType Api Endpoint Entry EntryParam dflt =
     (case endpoints Api Endpoint of
        None \<Rightarrow> Inl UnknownEndpoint
      | Some ComputedEndpoint \<Rightarrow>
          (case entry ComputedEndpoint Entry EntryParam of
             None \<Rightarrow> Inl UnknownEntry
           | Some (Parameter sch (Some Meta)) \<Rightarrow>
               (case schemaType Meta of
                  Some Type \<Rightarrow> Inr Type
                | None \<Rightarrow>
                    ApiGetEndpointSchemaType Api Endpoint (Some (DefaultSchemaType dflt)))
           | Some (Parameter sch None) \<Rightarrow>
               ApiGetEndpointSchemaType Api Endpoint (Some (DefaultSchemaType dflt))
           | Some _ \<Rightarrow>
               ApiGetEndpointSchemaType Api Endpoint (Some (DefaultSchemaType dflt))))"

subsection \<open>Projection through the resolved provider\<close>

text \<open>
  \<open>InferInputTypeFromSchema<Provider, Schema>\<close> and \<open>InferOutputTypeFromSchema\<close> come from
  \<open>schema-type.types\<close>. They are arguments of the model: a function from the provider
  and the operand to the projected shape, or to the failure the provider lookup signals.
  An alias returns what that function returns.
\<close>

definition ApiInferEndpointBody ::
  "(ProviderId \<Rightarrow> 's ApiValue \<Rightarrow> error + 't) \<Rightarrow> 's ApiSpec \<Rightarrow> string
     \<Rightarrow> SchemaType option \<Rightarrow> error + 't" where
  "ApiInferEndpointBody InferInputTypeFromSchema Api Endpoint dflt =
     (case endpoints Api Endpoint of
        None \<Rightarrow> Inl UnknownEndpoint
      | Some ComputedEndpoint \<Rightarrow>
          (case body ComputedEndpoint of
             Parameter sch Meta \<Rightarrow>
               (case ApiGetEndpointBodySchemaType Api Endpoint
                       (Some (DefaultSchemaType dflt)) of
                  Inl e \<Rightarrow> Inl e
                | Inr Type \<Rightarrow> InferInputTypeFromSchema (provider Type) sch)
           | Param \<Rightarrow>
               (case ApiGetEndpointSchemaType Api Endpoint
                       (Some (DefaultSchemaType dflt)) of
                  Inl e \<Rightarrow> Inl e
                | Inr Type \<Rightarrow> InferInputTypeFromSchema (provider Type) Param)))"

definition ApiInferEndpointInputEntry ::
  "(ProviderId \<Rightarrow> 's ApiValue \<Rightarrow> error + 't) \<Rightarrow> 's ApiSpec \<Rightarrow> string
     \<Rightarrow> ApiEntry \<Rightarrow> string \<Rightarrow> SchemaType option \<Rightarrow> error + 't" where
  "ApiInferEndpointInputEntry InferInputTypeFromSchema Api Endpoint Entry EntryParam dflt =
     (case endpoints Api Endpoint of
        None \<Rightarrow> Inl UnknownEndpoint
      | Some ComputedEndpoint \<Rightarrow>
          (case entry ComputedEndpoint Entry EntryParam of
             None \<Rightarrow> Inl UnknownEntry
           | Some (Parameter sch Meta) \<Rightarrow>
               (case ApiGetEndpointEntrySchemaType Api Endpoint Entry EntryParam
                       (Some (DefaultSchemaType dflt)) of
                  Inl e \<Rightarrow> Inl e
                | Inr Type \<Rightarrow> InferInputTypeFromSchema (provider Type) sch)
           | Some ComputedEntryParam \<Rightarrow>
               (case ApiGetEndpointEntrySchemaType Api Endpoint Entry EntryParam
                       (Some (DefaultSchemaType dflt)) of
                  Inl e \<Rightarrow> Inl e
                | Inr Type \<Rightarrow>
                    InferInputTypeFromSchema (provider Type) ComputedEntryParam)))"

definition ApiInferEndpointOutputEntry ::
  "(ProviderId \<Rightarrow> 's ApiValue \<Rightarrow> error + 't) \<Rightarrow> 's ApiSpec \<Rightarrow> string
     \<Rightarrow> ApiEntry \<Rightarrow> string \<Rightarrow> SchemaType option \<Rightarrow> error + 't" where
  "ApiInferEndpointOutputEntry InferOutputTypeFromSchema Api Endpoint Entry EntryParam dflt =
     (case endpoints Api Endpoint of
        None \<Rightarrow> Inl UnknownEndpoint
      | Some ComputedEndpoint \<Rightarrow>
          (case entry ComputedEndpoint Entry EntryParam of
             None \<Rightarrow> Inl UnknownEntry
           | Some (Parameter sch Meta) \<Rightarrow>
               (case ApiGetEndpointEntrySchemaType Api Endpoint Entry EntryParam
                       (Some (DefaultSchemaType dflt)) of
                  Inl e \<Rightarrow> Inl e
                | Inr Type \<Rightarrow> InferOutputTypeFromSchema (provider Type) sch)
           | Some ComputedEntryParam \<Rightarrow>
               (case ApiGetEndpointEntrySchemaType Api Endpoint Entry EntryParam
                       (Some (DefaultSchemaType dflt)) of
                  Inl e \<Rightarrow> Inl e
                | Inr Type \<Rightarrow>
                    InferOutputTypeFromSchema (provider Type) ComputedEntryParam)))"

subsection \<open>The aliases for each entry kind\<close>

definition ApiInferEndpointInputParam ::
  "(ProviderId \<Rightarrow> 's ApiValue \<Rightarrow> error + 't) \<Rightarrow> 's ApiSpec \<Rightarrow> string
     \<Rightarrow> string \<Rightarrow> SchemaType option \<Rightarrow> error + 't" where
  "ApiInferEndpointInputParam InferInputTypeFromSchema Api Endpoint PathParam dflt =
     ApiInferEndpointInputEntry InferInputTypeFromSchema Api Endpoint Params PathParam
       (Some (DefaultSchemaType dflt))"

definition ApiInferEndpointInputQuery ::
  "(ProviderId \<Rightarrow> 's ApiValue \<Rightarrow> error + 't) \<Rightarrow> 's ApiSpec \<Rightarrow> string
     \<Rightarrow> string \<Rightarrow> SchemaType option \<Rightarrow> error + 't" where
  "ApiInferEndpointInputQuery InferInputTypeFromSchema Api Endpoint QueryParam dflt =
     ApiInferEndpointInputEntry InferInputTypeFromSchema Api Endpoint Query QueryParam
       (Some (DefaultSchemaType dflt))"

definition ApiInferEndpointInputHeader ::
  "(ProviderId \<Rightarrow> 's ApiValue \<Rightarrow> error + 't) \<Rightarrow> 's ApiSpec \<Rightarrow> string
     \<Rightarrow> string \<Rightarrow> SchemaType option \<Rightarrow> error + 't" where
  "ApiInferEndpointInputHeader InferInputTypeFromSchema Api Endpoint HeaderParam dflt =
     ApiInferEndpointInputEntry InferInputTypeFromSchema Api Endpoint Headers HeaderParam
       (Some (DefaultSchemaType dflt))"

definition ApiInferEndpointInputCookie ::
  "(ProviderId \<Rightarrow> 's ApiValue \<Rightarrow> error + 't) \<Rightarrow> 's ApiSpec \<Rightarrow> string
     \<Rightarrow> string \<Rightarrow> SchemaType option \<Rightarrow> error + 't" where
  "ApiInferEndpointInputCookie InferInputTypeFromSchema Api Endpoint CookieParam dflt =
     ApiInferEndpointInputEntry InferInputTypeFromSchema Api Endpoint Cookies CookieParam
       (Some (DefaultSchemaType dflt))"

definition ApiInferEndpointInputResponse ::
  "(ProviderId \<Rightarrow> 's ApiValue \<Rightarrow> error + 't) \<Rightarrow> 's ApiSpec \<Rightarrow> string
     \<Rightarrow> string \<Rightarrow> SchemaType option \<Rightarrow> error + 't" where
  "ApiInferEndpointInputResponse InferInputTypeFromSchema Api Endpoint StatusCode dflt =
     ApiInferEndpointInputEntry InferInputTypeFromSchema Api Endpoint Responses StatusCode
       (Some (DefaultSchemaType dflt))"

definition ApiInferEndpointOutputParam ::
  "(ProviderId \<Rightarrow> 's ApiValue \<Rightarrow> error + 't) \<Rightarrow> 's ApiSpec \<Rightarrow> string
     \<Rightarrow> string \<Rightarrow> SchemaType option \<Rightarrow> error + 't" where
  "ApiInferEndpointOutputParam InferOutputTypeFromSchema Api Endpoint PathParam dflt =
     ApiInferEndpointOutputEntry InferOutputTypeFromSchema Api Endpoint Params PathParam
       (Some (DefaultSchemaType dflt))"

definition ApiInferEndpointOutputQuery ::
  "(ProviderId \<Rightarrow> 's ApiValue \<Rightarrow> error + 't) \<Rightarrow> 's ApiSpec \<Rightarrow> string
     \<Rightarrow> string \<Rightarrow> SchemaType option \<Rightarrow> error + 't" where
  "ApiInferEndpointOutputQuery InferOutputTypeFromSchema Api Endpoint QueryParam dflt =
     ApiInferEndpointOutputEntry InferOutputTypeFromSchema Api Endpoint Query QueryParam
       (Some (DefaultSchemaType dflt))"

definition ApiInferEndpointOutputHeader ::
  "(ProviderId \<Rightarrow> 's ApiValue \<Rightarrow> error + 't) \<Rightarrow> 's ApiSpec \<Rightarrow> string
     \<Rightarrow> string \<Rightarrow> SchemaType option \<Rightarrow> error + 't" where
  "ApiInferEndpointOutputHeader InferOutputTypeFromSchema Api Endpoint HeaderParam dflt =
     ApiInferEndpointOutputEntry InferOutputTypeFromSchema Api Endpoint Headers HeaderParam
       (Some (DefaultSchemaType dflt))"

definition ApiInferEndpointOutputCookie ::
  "(ProviderId \<Rightarrow> 's ApiValue \<Rightarrow> error + 't) \<Rightarrow> 's ApiSpec \<Rightarrow> string
     \<Rightarrow> string \<Rightarrow> SchemaType option \<Rightarrow> error + 't" where
  "ApiInferEndpointOutputCookie InferOutputTypeFromSchema Api Endpoint CookieParam dflt =
     ApiInferEndpointOutputEntry InferOutputTypeFromSchema Api Endpoint Cookies CookieParam
       (Some (DefaultSchemaType dflt))"

definition ApiInferEndpointOutputResponse ::
  "(ProviderId \<Rightarrow> 's ApiValue \<Rightarrow> error + 't) \<Rightarrow> 's ApiSpec \<Rightarrow> string
     \<Rightarrow> string \<Rightarrow> SchemaType option \<Rightarrow> error + 't" where
  "ApiInferEndpointOutputResponse InferOutputTypeFromSchema Api Endpoint StatusCode dflt =
     ApiInferEndpointOutputEntry InferOutputTypeFromSchema Api Endpoint Responses StatusCode
       (Some (DefaultSchemaType dflt))"

subsection \<open>The cascade in the words of the spec\<close>

text \<open>
  The schema type a level declares: the \<open>schemaType\<close> of its metadata, when it has
  metadata and the metadata has one.
\<close>

definition declaredSchemaType :: "ApiBaseMetadata option \<Rightarrow> SchemaType option" where
  "declaredSchemaType m = (case m of None \<Rightarrow> None | Some Meta \<Rightarrow> schemaType Meta)"

text \<open>
  What stands at a location is a Parameter (or DataParameter) when it has a schema; only
  then can it declare a schema type of its own.
\<close>

fun isParameter :: "'s ApiValue \<Rightarrow> bool" where
  "isParameter (Parameter sch m) = True"
| "isParameter v = False"

fun parameterSchemaType :: "'s ApiValue \<Rightarrow> SchemaType option" where
  "parameterSchemaType (Parameter sch m) = declaredSchemaType m"
| "parameterSchemaType v = None"

text \<open>
  The operand of section 4.3, step 1: the schema of a Parameter, and what stands at the
  location itself when that is not a Parameter.
\<close>

fun operand :: "'s ApiValue \<Rightarrow> 's ApiValue" where
  "operand (Parameter sch m) = sch"
| "operand v = v"

text \<open>
  The four steps of \<open>resolveProvider\<close> in section 4.2, on the declarations of the three
  levels and the default: the first level that declares a schema type decides.
\<close>

definition resolveProvider ::
  "SchemaType option \<Rightarrow> SchemaType option \<Rightarrow> SchemaType option \<Rightarrow> SchemaType
     \<Rightarrow> SchemaType" where
  "resolveProvider p e a d =
     (case p of
        Some t \<Rightarrow> t
      | None \<Rightarrow>
          (case e of
             Some t \<Rightarrow> t
           | None \<Rightarrow> (case a of Some t \<Rightarrow> t | None \<Rightarrow> d)))"

subsection \<open>Example descriptions\<close>

definition getUser :: "string ApiEndpoint" where
  "getUser = \<lparr> ApiEndpoint.metadata = Some (ApiBaseMetadata (Some (SchemaType ''P1''))),
      params = [''id'' \<mapsto> Parameter (Schema ''string'') None],
      query = [''page'' \<mapsto> Schema ''number''],
      headers = Map.empty, cookies = Map.empty, responses = Map.empty,
      body = Undefined \<rparr>"

definition createUser :: "string ApiEndpoint" where
  "createUser = \<lparr> ApiEndpoint.metadata = Some (ApiBaseMetadata (Some (SchemaType ''P2''))),
      params = Map.empty, query = Map.empty,
      headers = [''x-trace'' \<mapsto>
        Parameter (Schema ''string'') (Some (ApiBaseMetadata (Some (SchemaType ''P3''))))],
      cookies = Map.empty,
      responses = [''201'' \<mapsto> Parameter (Schema ''user'') (Some (ApiBaseMetadata None))],
      body = Parameter (Schema ''user'') (Some (ApiBaseMetadata (Some (SchemaType ''P4'')))) \<rparr>"

definition listUsers :: "string ApiEndpoint" where
  "listUsers = \<lparr> ApiEndpoint.metadata = None,
      params = Map.empty,
      query = [''page'' \<mapsto> Parameter (Schema ''number'') None],
      headers = Map.empty, cookies = Map.empty, responses = Map.empty,
      body = Schema ''filter'' \<rparr>"

text \<open>\<open>D\<close> declares no schema type of its own; \<open>D'\<close> declares \<open>P5\<close>.\<close>

definition D :: "string ApiSpec" where
  "D = \<lparr> ApiSpec.metadata = None,
         endpoints = [''getUser'' \<mapsto> getUser, ''listUsers'' \<mapsto> listUsers] \<rparr>"

definition D' :: "string ApiSpec" where
  "D' = \<lparr> ApiSpec.metadata = Some (ApiBaseMetadata (Some (SchemaType ''P5''))),
          endpoints = [''createUser'' \<mapsto> createUser, ''listUsers'' \<mapsto> listUsers] \<rparr>"

text \<open>
  A projection for the examples: provider \<open>P1\<close> maps a schema to the shape of the same
  name, provider \<open>P0\<close> accepts every operand, and no other provider is registered.
\<close>

definition project :: "string \<Rightarrow> ProviderId \<Rightarrow> string ApiValue \<Rightarrow> error + string" where
  "project dir p v =
     (if p = ''P1'' then (case v of Schema s \<Rightarrow> Inr s | _ \<Rightarrow> Inr ''unknown'')
      else if p = ''P0'' then Inr (dir @ ''-any'')
      else Inl (ProviderNotFound p))"

definition ping :: "string ApiEndpoint" where
  "ping = \<lparr> ApiEndpoint.metadata = None,
      params = [''id'' \<mapsto> Parameter (Schema ''string'') None],
      query = [''page'' \<mapsto> Schema ''number''],
      headers = [''accept'' \<mapsto> Parameter (Schema ''string'') (Some (ApiBaseMetadata None))],
      cookies = [''session'' \<mapsto> Parameter (Schema ''token'') None],
      responses = [''200'' \<mapsto> Parameter (Schema ''pong'') None],
      body = Undefined \<rparr>"

text \<open>\<open>D0\<close> declares no schema type at any level.\<close>

definition D0 :: "string ApiSpec" where
  "D0 = \<lparr> ApiSpec.metadata = None, endpoints = [''ping'' \<mapsto> ping] \<rparr>"

text \<open>
  A projection for \<open>D0\<close>: only the provider of \<open>ApiTypeScriptSchema\<close> is registered.
\<close>

definition builtin :: "string \<Rightarrow> ProviderId \<Rightarrow> string ApiValue \<Rightarrow> error + string" where
  "builtin dir p v =
     (if p = provider ApiTypeScriptSchema then
        (case v of Schema s \<Rightarrow> Inr (dir @ '':'' @ s) | _ \<Rightarrow> Inr (dir @ '':undefined''))
      else Inl (ProviderNotFound p))"

section \<open>Properties\<close>

subsection \<open>The aliases compute the cascade\<close>

lemma DefaultSchemaType_Some [simp]: "DefaultSchemaType (Some t) = t"
  by (simp add: DefaultSchemaType_def)

lemma DefaultSchemaType_None: "DefaultSchemaType None = ApiTypeScriptSchema"
  by (simp add: DefaultSchemaType_def)

lemma ApiGetSchemaType_resolve:
  "ApiGetSchemaType Api d =
     resolveProvider None None (declaredSchemaType (ApiSpec.metadata Api))
       (DefaultSchemaType d)"
  by (simp add: ApiGetSchemaType_def resolveProvider_def declaredSchemaType_def
      split: option.splits)

lemma ApiGetEndpointSchemaType_resolve:
  "endpoints Api Endpoint = Some ep \<Longrightarrow>
   ApiGetEndpointSchemaType Api Endpoint d =
     Inr (resolveProvider None (declaredSchemaType (ApiEndpoint.metadata ep))
            (declaredSchemaType (ApiSpec.metadata Api)) (DefaultSchemaType d))"
  by (simp add: ApiGetEndpointSchemaType_def ApiGetSchemaType_resolve resolveProvider_def
      declaredSchemaType_def split: option.splits)

lemma ApiGetEndpointEntrySchemaType_resolve:
  "endpoints Api Endpoint = Some ep \<Longrightarrow> entry ep Entry EntryParam = Some v \<Longrightarrow>
   ApiGetEndpointEntrySchemaType Api Endpoint Entry EntryParam d =
     Inr (resolveProvider (parameterSchemaType v)
            (declaredSchemaType (ApiEndpoint.metadata ep))
            (declaredSchemaType (ApiSpec.metadata Api)) (DefaultSchemaType d))"
  by (cases v)
     (simp_all add: ApiGetEndpointEntrySchemaType_def ApiGetEndpointSchemaType_resolve
        resolveProvider_def declaredSchemaType_def split: option.splits)

lemma ApiGetEndpointBodySchemaType_resolve:
  "endpoints Api Endpoint = Some ep \<Longrightarrow>
   ApiGetEndpointBodySchemaType Api Endpoint d =
     Inr (resolveProvider (parameterSchemaType (body ep))
            (declaredSchemaType (ApiEndpoint.metadata ep))
            (declaredSchemaType (ApiSpec.metadata Api)) (DefaultSchemaType d))"
  by (cases "body ep")
     (simp_all add: ApiGetEndpointBodySchemaType_def ApiGetEndpointSchemaType_resolve
        resolveProvider_def declaredSchemaType_def split: option.splits)

lemma ApiInferEndpointInputEntry_operand:
  "endpoints Api Endpoint = Some ep \<Longrightarrow> entry ep Entry EntryParam = Some v \<Longrightarrow>
   ApiGetEndpointEntrySchemaType Api Endpoint Entry EntryParam d = Inr T \<Longrightarrow>
   ApiInferEndpointInputEntry InferIn Api Endpoint Entry EntryParam d =
     InferIn (provider T) (operand v)"
  by (cases v)
     (simp_all add: ApiInferEndpointInputEntry_def ApiGetEndpointEntrySchemaType_resolve)

lemma ApiInferEndpointOutputEntry_operand:
  "endpoints Api Endpoint = Some ep \<Longrightarrow> entry ep Entry EntryParam = Some v \<Longrightarrow>
   ApiGetEndpointEntrySchemaType Api Endpoint Entry EntryParam d = Inr T \<Longrightarrow>
   ApiInferEndpointOutputEntry InferOut Api Endpoint Entry EntryParam d =
     InferOut (provider T) (operand v)"
  by (cases v)
     (simp_all add: ApiInferEndpointOutputEntry_def ApiGetEndpointEntrySchemaType_resolve)

lemma ApiInferEndpointBody_operand:
  "endpoints Api Endpoint = Some ep \<Longrightarrow>
   ApiGetEndpointBodySchemaType Api Endpoint d = Inr T \<Longrightarrow>
   ApiInferEndpointBody InferIn Api Endpoint d = InferIn (provider T) (operand (body ep))"
  by (cases "body ep")
     (simp_all add: ApiInferEndpointBody_def ApiGetEndpointBodySchemaType_resolve
        ApiGetEndpointSchemaType_resolve)

subsection \<open>Precedence and fallback\<close>

text \<open>
  C1 (cascade precedence, narrowest wins). In every description in which the endpoint and
  the description each declare a schema type, a Parameter of any entry kind that declares
  a schema type of its own resolves to its own declaration, and so does a body
  DataParameter that declares one: the result is never taken from the endpoint or from
  the description.
\<close>

theorem cascade_precedence:
  assumes "endpoints Api Endpoint = Some ep"
    and "declaredSchemaType (ApiEndpoint.metadata ep) = Some te"
    and "declaredSchemaType (ApiSpec.metadata Api) = Some ta"
  shows "(entry ep Entry EntryParam = Some v \<and> parameterSchemaType v = Some tp \<longrightarrow>
            ApiGetEndpointEntrySchemaType Api Endpoint Entry EntryParam dflt = Inr tp)
       \<and> (parameterSchemaType (body ep) = Some tb \<longrightarrow>
            ApiGetEndpointBodySchemaType Api Endpoint dflt = Inr tb)"
  using assms
  by (simp add: ApiGetEndpointEntrySchemaType_resolve ApiGetEndpointBodySchemaType_resolve
      resolveProvider_def)

theorem cascade_precedence_witness:
  "ApiGetEndpointEntrySchemaType D' ''createUser'' Headers ''x-trace''
       (Some (SchemaType ''P0'')) = Inr (SchemaType ''P3'')
   \<and> ApiGetEndpointBodySchemaType D' ''createUser'' (Some (SchemaType ''P0''))
       = Inr (SchemaType ''P4'')"
  using cascade_precedence [of D' "''createUser''" createUser "SchemaType ''P2''"
      "SchemaType ''P5''" Headers "''x-trace''"
      "Parameter (Schema ''string'') (Some (ApiBaseMetadata (Some (SchemaType ''P3''))))"
      "SchemaType ''P3''" "Some (SchemaType ''P0'')" "SchemaType ''P4''"]
  by (simp add: D'_def createUser_def declaredSchemaType_def)

text \<open>
  C2 (fallback chain). At every location of an existing endpoint (a declared entry of any
  kind, or the body) where no schema type is declared at the parameter level, resolution
  returns the schema type the endpoint declares; when the endpoint declares none, the one
  the description declares; when no level declares one, the default that was supplied.
\<close>

theorem fallback_chain:
  assumes "endpoints Api Endpoint = Some ep"
  shows "(entry ep Entry EntryParam = Some v \<and> parameterSchemaType v = None \<longrightarrow>
           (\<forall>te. declaredSchemaType (ApiEndpoint.metadata ep) = Some te \<longrightarrow>
              ApiGetEndpointEntrySchemaType Api Endpoint Entry EntryParam dflt = Inr te)
         \<and> (\<forall>ta. declaredSchemaType (ApiEndpoint.metadata ep) = None
                \<and> declaredSchemaType (ApiSpec.metadata Api) = Some ta \<longrightarrow>
              ApiGetEndpointEntrySchemaType Api Endpoint Entry EntryParam dflt = Inr ta)
         \<and> (declaredSchemaType (ApiEndpoint.metadata ep) = None
                \<and> declaredSchemaType (ApiSpec.metadata Api) = None \<longrightarrow>
              ApiGetEndpointEntrySchemaType Api Endpoint Entry EntryParam dflt
                = Inr (DefaultSchemaType dflt)))
       \<and> (parameterSchemaType (body ep) = None \<longrightarrow>
           (\<forall>te. declaredSchemaType (ApiEndpoint.metadata ep) = Some te \<longrightarrow>
              ApiGetEndpointBodySchemaType Api Endpoint dflt = Inr te)
         \<and> (\<forall>ta. declaredSchemaType (ApiEndpoint.metadata ep) = None
                \<and> declaredSchemaType (ApiSpec.metadata Api) = Some ta \<longrightarrow>
              ApiGetEndpointBodySchemaType Api Endpoint dflt = Inr ta)
         \<and> (declaredSchemaType (ApiEndpoint.metadata ep) = None
                \<and> declaredSchemaType (ApiSpec.metadata Api) = None \<longrightarrow>
              ApiGetEndpointBodySchemaType Api Endpoint dflt = Inr (DefaultSchemaType dflt)))"
  using assms
  by (simp add: ApiGetEndpointEntrySchemaType_resolve ApiGetEndpointBodySchemaType_resolve
      resolveProvider_def)

theorem fallback_chain_witness:
  "ApiGetEndpointEntrySchemaType D ''getUser'' Params ''id'' (Some (SchemaType ''P0''))
     = Inr (SchemaType ''P1'')
   \<and> ApiGetEndpointBodySchemaType D ''getUser'' (Some (SchemaType ''P0''))
     = Inr (SchemaType ''P1'')
   \<and> ApiGetEndpointEntrySchemaType D' ''listUsers'' Query ''page'' (Some (SchemaType ''P0''))
     = Inr (SchemaType ''P5'')
   \<and> ApiGetEndpointBodySchemaType D' ''listUsers'' (Some (SchemaType ''P0''))
     = Inr (SchemaType ''P5'')
   \<and> ApiGetEndpointEntrySchemaType D ''listUsers'' Query ''page'' (Some (SchemaType ''P0''))
     = Inr (SchemaType ''P0'')
   \<and> ApiGetEndpointBodySchemaType D ''listUsers'' (Some (SchemaType ''P0''))
     = Inr (SchemaType ''P0'')"
  using
    fallback_chain [of D "''getUser''" getUser Params "''id''"
      "Parameter (Schema ''string'') None" "Some (SchemaType ''P0'')"]
    fallback_chain [of D' "''listUsers''" listUsers Query "''page''"
      "Parameter (Schema ''number'') None" "Some (SchemaType ''P0'')"]
    fallback_chain [of D "''listUsers''" listUsers Query "''page''"
      "Parameter (Schema ''number'') None" "Some (SchemaType ''P0'')"]
  by (simp add: D_def D'_def getUser_def listUsers_def declaredSchemaType_def)

subsection \<open>The body\<close>

text \<open>
  C3 (body special case). For an endpoint that declares no body, resolving the schema
  type of the body does not signal \<open>UnknownEntry\<close>: it gives what the endpoint-level
  resolution gives (the endpoint's declaration, else the description's, else the
  default), and the body projection applies the provider so resolved.
\<close>

theorem body_absent_falls_through:
  assumes "endpoints Api Endpoint = Some ep" and "body ep = Undefined"
  shows "ApiGetEndpointBodySchemaType Api Endpoint dflt \<noteq> Inl UnknownEntry
       \<and> ApiGetEndpointBodySchemaType Api Endpoint dflt
           = ApiGetEndpointSchemaType Api Endpoint dflt
       \<and> ApiGetEndpointBodySchemaType Api Endpoint dflt
           = Inr (resolveProvider None (declaredSchemaType (ApiEndpoint.metadata ep))
                   (declaredSchemaType (ApiSpec.metadata Api)) (DefaultSchemaType dflt))
       \<and> ApiInferEndpointBody InferIn Api Endpoint dflt
           = InferIn (provider (resolveProvider None
                   (declaredSchemaType (ApiEndpoint.metadata ep))
                   (declaredSchemaType (ApiSpec.metadata Api)) (DefaultSchemaType dflt)))
               Undefined"
  using assms ApiInferEndpointBody_operand [OF assms(1), of dflt _ InferIn]
  by (simp add: ApiGetEndpointBodySchemaType_resolve ApiGetEndpointSchemaType_resolve)

theorem body_absent_falls_through_witness:
  "ApiGetEndpointBodySchemaType D ''getUser'' None \<noteq> Inl UnknownEntry
   \<and> ApiGetEndpointBodySchemaType D ''getUser'' None = ApiGetEndpointSchemaType D ''getUser'' None
   \<and> ApiGetEndpointBodySchemaType D ''getUser'' None = Inr (SchemaType ''P1'')
   \<and> ApiInferEndpointBody (project ''in'') D ''getUser'' None = Inr ''unknown''"
  using body_absent_falls_through [of D "''getUser''" getUser None "project ''in''"]
  by (simp add: D_def getUser_def declaredSchemaType_def resolveProvider_def project_def
      ApiGetEndpointSchemaType_def)

subsection \<open>The operand of the projection\<close>

text \<open>
  C4 (schema-absent pass-through). Where what stands at a declared entry is not a
  Parameter (it has no schema), the input and the output projection of the resolved
  provider are applied to that value itself, and where the body is not a DataParameter
  the input projection is applied to the body location itself. What the projection
  returns is the result, unchanged; the absence of a schema raises nothing.
\<close>

theorem schema_absent_pass_through:
  assumes "endpoints Api Endpoint = Some ep"
  shows "(entry ep Entry EntryParam = Some v \<and> \<not> isParameter v \<longrightarrow>
           (\<exists>T. ApiGetEndpointEntrySchemaType Api Endpoint Entry EntryParam dflt = Inr T
              \<and> ApiInferEndpointInputEntry InferIn Api Endpoint Entry EntryParam dflt
                  = InferIn (provider T) v
              \<and> ApiInferEndpointOutputEntry InferOut Api Endpoint Entry EntryParam dflt
                  = InferOut (provider T) v))
       \<and> (\<not> isParameter (body ep) \<longrightarrow>
           (\<exists>T. ApiGetEndpointBodySchemaType Api Endpoint dflt = Inr T
              \<and> ApiInferEndpointBody InferIn Api Endpoint dflt
                  = InferIn (provider T) (body ep)))"
proof (intro conjI impI)
  assume v: "entry ep Entry EntryParam = Some v \<and> \<not> isParameter v"
  then have op: "operand v = v" by (cases v) simp_all
  from v assms show "\<exists>T. ApiGetEndpointEntrySchemaType Api Endpoint Entry EntryParam dflt = Inr T
      \<and> ApiInferEndpointInputEntry InferIn Api Endpoint Entry EntryParam dflt
          = InferIn (provider T) v
      \<and> ApiInferEndpointOutputEntry InferOut Api Endpoint Entry EntryParam dflt
          = InferOut (provider T) v"
    using ApiGetEndpointEntrySchemaType_resolve [of Api Endpoint ep Entry EntryParam v dflt]
      ApiInferEndpointInputEntry_operand [of Api Endpoint ep Entry EntryParam v dflt _ InferIn]
      ApiInferEndpointOutputEntry_operand [of Api Endpoint ep Entry EntryParam v dflt _ InferOut]
    by (simp add: op)
next
  assume b: "\<not> isParameter (body ep)"
  then have op: "operand (body ep) = body ep" by (cases "body ep") simp_all
  from assms show "\<exists>T. ApiGetEndpointBodySchemaType Api Endpoint dflt = Inr T
      \<and> ApiInferEndpointBody InferIn Api Endpoint dflt = InferIn (provider T) (body ep)"
    using ApiGetEndpointBodySchemaType_resolve [of Api Endpoint ep dflt]
      ApiInferEndpointBody_operand [of Api Endpoint ep dflt _ InferIn]
    by (simp add: op)
qed

theorem schema_absent_pass_through_witness:
  "ApiInferEndpointInputEntry (project ''in'') D ''getUser'' Query ''page''
       (Some (SchemaType ''P0'')) = project ''in'' ''P1'' (Schema ''number'')
   \<and> ApiInferEndpointOutputEntry (project ''out'') D ''getUser'' Query ''page''
       (Some (SchemaType ''P0'')) = project ''out'' ''P1'' (Schema ''number'')
   \<and> ApiInferEndpointBody (project ''in'') D ''getUser'' (Some (SchemaType ''P0''))
       = project ''in'' ''P1'' Undefined"
  using schema_absent_pass_through [of D "''getUser''" getUser Query "''page''"
      "Schema ''number''" "Some (SchemaType ''P0'')" "project ''in''" "project ''out''"]
    ApiGetEndpointEntrySchemaType_resolve [of D "''getUser''" getUser Query "''page''"
      "Schema ''number''" "Some (SchemaType ''P0'')"]
    ApiGetEndpointBodySchemaType_resolve [of D "''getUser''" getUser "Some (SchemaType ''P0'')"]
  by (simp add: D_def getUser_def declaredSchemaType_def resolveProvider_def)


subsection \<open>Unknown names\<close>

text \<open>
  C5 (unknown entry). For each of the five name-keyed entry kinds of an existing
  endpoint, an entry name that the collection of that kind does not have makes the
  resolution, the input projection and the output projection signal \<open>UnknownEntry\<close>;
  no schema type is returned and no level is fallen back to.
\<close>

theorem unknown_entry_signalled:
  assumes "endpoints Api Endpoint = Some ep" and "entry ep Entry EntryParam = None"
  shows "ApiGetEndpointEntrySchemaType Api Endpoint Entry EntryParam dflt = Inl UnknownEntry
       \<and> ApiInferEndpointInputEntry InferIn Api Endpoint Entry EntryParam dflt
           = Inl UnknownEntry
       \<and> ApiInferEndpointOutputEntry InferOut Api Endpoint Entry EntryParam dflt
           = Inl UnknownEntry"
  using assms
  by (simp add: ApiGetEndpointEntrySchemaType_def ApiInferEndpointInputEntry_def
      ApiInferEndpointOutputEntry_def)

theorem unknown_entry_signalled_witness:
  "ApiGetEndpointEntrySchemaType D ''getUser'' Params ''limit'' (Some (SchemaType ''P0''))
     = Inl UnknownEntry
   \<and> ApiInferEndpointInputEntry (project ''in'') D ''getUser'' Params ''limit''
        (Some (SchemaType ''P0'')) = Inl UnknownEntry
   \<and> ApiInferEndpointOutputEntry (project ''out'') D ''getUser'' Params ''limit''
        (Some (SchemaType ''P0'')) = Inl UnknownEntry
   \<and> ApiGetEndpointEntrySchemaType D ''getUser'' Responses ''200'' None = Inl UnknownEntry"
  using
    unknown_entry_signalled [of D "''getUser''" getUser Params "''limit''"
      "Some (SchemaType ''P0'')" "project ''in''" "project ''out''"]
    unknown_entry_signalled [of D "''getUser''" getUser Responses "''200''" None
      "project ''in''" "project ''out''"]
  by (simp add: D_def getUser_def)

text \<open>
  C6 (unknown endpoint). For every description and every endpoint name that its endpoint
  mapping does not have, the resolution for the endpoint, for its body and for any of its
  entries signals \<open>UnknownEndpoint\<close> and returns no schema type.
\<close>

theorem unknown_endpoint_signalled:
  assumes "endpoints Api Endpoint = None"
  shows "ApiGetEndpointSchemaType Api Endpoint dflt = Inl UnknownEndpoint
       \<and> ApiGetEndpointBodySchemaType Api Endpoint dflt = Inl UnknownEndpoint
       \<and> ApiGetEndpointEntrySchemaType Api Endpoint Entry EntryParam dflt
           = Inl UnknownEndpoint
       \<and> (\<nexists>T. ApiGetEndpointSchemaType Api Endpoint dflt = Inr T)
       \<and> (\<nexists>T. ApiGetEndpointBodySchemaType Api Endpoint dflt = Inr T)
       \<and> (\<nexists>T. ApiGetEndpointEntrySchemaType Api Endpoint Entry EntryParam dflt = Inr T)"
  using assms
  by (simp add: ApiGetEndpointSchemaType_def ApiGetEndpointBodySchemaType_def
      ApiGetEndpointEntrySchemaType_def)

theorem unknown_endpoint_signalled_witness:
  "ApiGetEndpointSchemaType D ''nonexistentEndpoint'' (Some (SchemaType ''P0''))
     = Inl UnknownEndpoint
   \<and> ApiGetEndpointBodySchemaType D ''nonexistentEndpoint'' (Some (SchemaType ''P0''))
     = Inl UnknownEndpoint
   \<and> ApiGetEndpointEntrySchemaType D ''nonexistentEndpoint'' Params ''id''
       (Some (SchemaType ''P0'')) = Inl UnknownEndpoint"
  using unknown_endpoint_signalled [of D "''nonexistentEndpoint''"
      "Some (SchemaType ''P0'')" Params "''id''"]
  by (simp add: D_def)

subsection \<open>Projection at a location\<close>

text \<open>
  C8 (concrete scenario). In a description whose endpoint \<open>getUser\<close> declares schema type
  \<open>P1\<close> and whose \<open>params.id\<close> is a Parameter with schema \<open>string\<close> that declares no
  schema type, resolution for \<open>params.id\<close> with default \<open>P0\<close> returns \<open>P1\<close>; and when the
  input projection of \<open>P1\<close>'s provider maps the schema \<open>string\<close> to a shape, the
  input-shape operation for that location yields that shape.
\<close>

theorem concrete_scenario:
  assumes "endpoints Api ''getUser'' = Some ep"
    and "declaredSchemaType (ApiEndpoint.metadata ep) = Some P1"
    and "params ep ''id'' = Some (Parameter (Schema ''string'') m)"
    and "declaredSchemaType m = None"
  shows "ApiGetEndpointEntrySchemaType Api ''getUser'' Params ''id'' (Some P0) = Inr P1
       \<and> (InferIn (provider P1) (Schema ''string'') = Inr shape \<longrightarrow>
            ApiInferEndpointInputEntry InferIn Api ''getUser'' Params ''id'' (Some P0)
              = Inr shape)"
proof -
  have r: "ApiGetEndpointEntrySchemaType Api ''getUser'' Params ''id'' (Some P0) = Inr P1"
    using assms
      ApiGetEndpointEntrySchemaType_resolve [of Api "''getUser''" ep Params "''id''"
        "Parameter (Schema ''string'') m" "Some P0"]
    by (simp add: resolveProvider_def)
  have "ApiInferEndpointInputEntry InferIn Api ''getUser'' Params ''id'' (Some P0)
          = InferIn (provider P1) (Schema ''string'')"
    using assms(1,3) r
      ApiInferEndpointInputEntry_operand [of Api "''getUser''" ep Params "''id''"
        "Parameter (Schema ''string'') m" "Some P0" P1 InferIn]
    by simp
  with r show ?thesis by simp
qed

theorem concrete_scenario_witness:
  "ApiGetEndpointEntrySchemaType D ''getUser'' Params ''id'' (Some (SchemaType ''P0''))
     = Inr (SchemaType ''P1'')
   \<and> ApiInferEndpointInputEntry (project ''in'') D ''getUser'' Params ''id''
       (Some (SchemaType ''P0'')) = Inr ''string''"
  using concrete_scenario [of D getUser "SchemaType ''P1''" None "SchemaType ''P0''"
      "project ''in''" "''string''"]
  by (simp add: D_def getUser_def declaredSchemaType_def project_def)

text \<open>
  C10 (input/output agreement). For every description, endpoint, entry kind, entry name
  and default, the input-shape and the output-shape operation either both fail with the
  failure of the resolution, or both apply their projection to the same operand under
  the provider of the one schema type the resolution returns.
\<close>

theorem provider_agreement:
  "(\<exists>e. ApiGetEndpointEntrySchemaType Api Endpoint Entry EntryParam dflt = Inl e
       \<and> ApiInferEndpointInputEntry InferIn Api Endpoint Entry EntryParam dflt = Inl e
       \<and> ApiInferEndpointOutputEntry InferOut Api Endpoint Entry EntryParam dflt = Inl e)
   \<or> (\<exists>T ep v. endpoints Api Endpoint = Some ep \<and> entry ep Entry EntryParam = Some v
       \<and> ApiGetEndpointEntrySchemaType Api Endpoint Entry EntryParam dflt = Inr T
       \<and> ApiInferEndpointInputEntry InferIn Api Endpoint Entry EntryParam dflt
           = InferIn (provider T) (operand v)
       \<and> ApiInferEndpointOutputEntry InferOut Api Endpoint Entry EntryParam dflt
           = InferOut (provider T) (operand v))"
proof (cases "endpoints Api Endpoint")
  case None
  then show ?thesis
    by (simp add: ApiGetEndpointEntrySchemaType_def ApiInferEndpointInputEntry_def
        ApiInferEndpointOutputEntry_def)
next
  case (Some ep)
  show ?thesis
  proof (cases "entry ep Entry EntryParam")
    case None
    with Some show ?thesis
      by (simp add: ApiGetEndpointEntrySchemaType_def ApiInferEndpointInputEntry_def
          ApiInferEndpointOutputEntry_def)
  next
    case (Some v)
    note e = \<open>endpoints Api Endpoint = Some ep\<close>
    note r = ApiGetEndpointEntrySchemaType_resolve [OF e Some, of dflt]
    show ?thesis
      using e Some r
        ApiInferEndpointInputEntry_operand [OF e Some r, of InferIn]
        ApiInferEndpointOutputEntry_operand [OF e Some r, of InferOut]
      by simp
  qed
qed


subsection \<open>The omitted default\<close>

lemma omitted_entry:
  assumes "endpoints Api Endpoint = Some ep"
    and "declaredSchemaType (ApiEndpoint.metadata ep) = None"
    and "declaredSchemaType (ApiSpec.metadata Api) = None"
    and "entry ep Entry EntryParam = Some v" and "parameterSchemaType v = None"
  shows "ApiGetEndpointEntrySchemaType Api Endpoint Entry EntryParam dflt
           = Inr (DefaultSchemaType dflt)
       \<and> ApiInferEndpointInputEntry InferIn Api Endpoint Entry EntryParam dflt
           = InferIn (provider (DefaultSchemaType dflt)) (operand v)
       \<and> ApiInferEndpointOutputEntry InferOut Api Endpoint Entry EntryParam dflt
           = InferOut (provider (DefaultSchemaType dflt)) (operand v)"
proof -
  have r: "ApiGetEndpointEntrySchemaType Api Endpoint Entry EntryParam dflt
             = Inr (DefaultSchemaType dflt)"
    using assms
    by (simp add: ApiGetEndpointEntrySchemaType_resolve resolveProvider_def)
  show ?thesis
    using r ApiInferEndpointInputEntry_operand [OF assms(1) assms(4) r, of InferIn]
      ApiInferEndpointOutputEntry_operand [OF assms(1) assms(4) r, of InferOut]
    by simp
qed

lemma omitted_is_supplied:
  "ApiGetSchemaType Api None = ApiGetSchemaType Api (Some ApiTypeScriptSchema)
   \<and> ApiGetEndpointSchemaType Api Endpoint None
       = ApiGetEndpointSchemaType Api Endpoint (Some ApiTypeScriptSchema)
   \<and> ApiGetEndpointBodySchemaType Api Endpoint None
       = ApiGetEndpointBodySchemaType Api Endpoint (Some ApiTypeScriptSchema)
   \<and> ApiGetEndpointEntrySchemaType Api Endpoint Entry EntryParam None
       = ApiGetEndpointEntrySchemaType Api Endpoint Entry EntryParam (Some ApiTypeScriptSchema)
   \<and> ApiInferEndpointBody InferIn Api Endpoint None
       = ApiInferEndpointBody InferIn Api Endpoint (Some ApiTypeScriptSchema)
   \<and> ApiInferEndpointInputEntry InferIn Api Endpoint Entry EntryParam None
       = ApiInferEndpointInputEntry InferIn Api Endpoint Entry EntryParam
           (Some ApiTypeScriptSchema)
   \<and> ApiInferEndpointOutputEntry InferOut Api Endpoint Entry EntryParam None
       = ApiInferEndpointOutputEntry InferOut Api Endpoint Entry EntryParam
           (Some ApiTypeScriptSchema)
   \<and> ApiInferEndpointInputParam InferIn Api Endpoint EntryParam None
           = ApiInferEndpointInputParam InferIn Api Endpoint EntryParam (Some ApiTypeScriptSchema)
   \<and> ApiInferEndpointInputQuery InferIn Api Endpoint EntryParam None
           = ApiInferEndpointInputQuery InferIn Api Endpoint EntryParam (Some ApiTypeScriptSchema)
   \<and> ApiInferEndpointInputHeader InferIn Api Endpoint EntryParam None
           = ApiInferEndpointInputHeader InferIn Api Endpoint EntryParam
               (Some ApiTypeScriptSchema)
   \<and> ApiInferEndpointInputCookie InferIn Api Endpoint EntryParam None
           = ApiInferEndpointInputCookie InferIn Api Endpoint EntryParam
               (Some ApiTypeScriptSchema)
   \<and> ApiInferEndpointInputResponse InferIn Api Endpoint EntryParam None
           = ApiInferEndpointInputResponse InferIn Api Endpoint EntryParam
               (Some ApiTypeScriptSchema)
   \<and> ApiInferEndpointOutputParam InferOut Api Endpoint EntryParam None
           = ApiInferEndpointOutputParam InferOut Api Endpoint EntryParam
               (Some ApiTypeScriptSchema)
   \<and> ApiInferEndpointOutputQuery InferOut Api Endpoint EntryParam None
           = ApiInferEndpointOutputQuery InferOut Api Endpoint EntryParam
               (Some ApiTypeScriptSchema)
   \<and> ApiInferEndpointOutputHeader InferOut Api Endpoint EntryParam None
           = ApiInferEndpointOutputHeader InferOut Api Endpoint EntryParam
               (Some ApiTypeScriptSchema)
   \<and> ApiInferEndpointOutputCookie InferOut Api Endpoint EntryParam None
           = ApiInferEndpointOutputCookie InferOut Api Endpoint EntryParam
               (Some ApiTypeScriptSchema)
   \<and> ApiInferEndpointOutputResponse InferOut Api Endpoint EntryParam None
           = ApiInferEndpointOutputResponse InferOut Api Endpoint EntryParam
               (Some ApiTypeScriptSchema)"
  unfolding ApiGetSchemaType_def ApiGetEndpointSchemaType_def
      ApiGetEndpointBodySchemaType_def ApiGetEndpointEntrySchemaType_def
      ApiInferEndpointBody_def ApiInferEndpointInputEntry_def ApiInferEndpointOutputEntry_def
      ApiInferEndpointInputParam_def ApiInferEndpointInputQuery_def ApiInferEndpointInputHeader_def
      ApiInferEndpointInputCookie_def ApiInferEndpointInputResponse_def ApiInferEndpointOutputParam_def
      ApiInferEndpointOutputQuery_def ApiInferEndpointOutputHeader_def ApiInferEndpointOutputCookie_def
      ApiInferEndpointOutputResponse_def
    DefaultSchemaType_None DefaultSchemaType_Some
  by simp

text \<open>
  C9 (implicit default). When the caller omits the default, the default at the end of the
  cascade is \<open>ApiTypeScriptSchema\<close>: where no level declares a schema type, every
  resolution alias returns \<open>ApiTypeScriptSchema\<close>, a schema type and not a failure, and
  every projection alias, the ten per-kind aliases included, applies the projection of
  its provider to the operand of the location. Where some level does declare one, every
  alias behaves with the default omitted as it does with \<open>ApiTypeScriptSchema\<close> supplied.
\<close>

theorem default_is_typescript:
  assumes "endpoints Api Endpoint = Some ep"
    and "declaredSchemaType (ApiEndpoint.metadata ep) = None"
    and "declaredSchemaType (ApiSpec.metadata Api) = None"
  shows "DefaultSchemaType None = ApiTypeScriptSchema
   \<and> ApiGetSchemaType Api None = ApiTypeScriptSchema
   \<and> ApiGetEndpointSchemaType Api Endpoint None = Inr ApiTypeScriptSchema
   \<and> (parameterSchemaType (body ep) = None \<longrightarrow>
        ApiGetEndpointBodySchemaType Api Endpoint None = Inr ApiTypeScriptSchema
      \<and> ApiInferEndpointBody InferIn Api Endpoint None
          = InferIn (provider ApiTypeScriptSchema) (operand (body ep)))
   \<and> (entry ep Entry EntryParam = Some v \<and> parameterSchemaType v = None \<longrightarrow>
        ApiGetEndpointEntrySchemaType Api Endpoint Entry EntryParam None
          = Inr ApiTypeScriptSchema
      \<and> ApiInferEndpointInputEntry InferIn Api Endpoint Entry EntryParam None
          = InferIn (provider ApiTypeScriptSchema) (operand v)
      \<and> ApiInferEndpointOutputEntry InferOut Api Endpoint Entry EntryParam None
          = InferOut (provider ApiTypeScriptSchema) (operand v))
   \<and> (params ep PathParam = Some pv \<and> parameterSchemaType pv = None \<longrightarrow>
        ApiInferEndpointInputParam InferIn Api Endpoint PathParam None
          = InferIn (provider ApiTypeScriptSchema) (operand pv)
      \<and> ApiInferEndpointOutputParam InferOut Api Endpoint PathParam None
          = InferOut (provider ApiTypeScriptSchema) (operand pv))
   \<and> (query ep QueryParam = Some qv \<and> parameterSchemaType qv = None \<longrightarrow>
        ApiInferEndpointInputQuery InferIn Api Endpoint QueryParam None
          = InferIn (provider ApiTypeScriptSchema) (operand qv)
      \<and> ApiInferEndpointOutputQuery InferOut Api Endpoint QueryParam None
          = InferOut (provider ApiTypeScriptSchema) (operand qv))
   \<and> (headers ep HeaderParam = Some hv \<and> parameterSchemaType hv = None \<longrightarrow>
        ApiInferEndpointInputHeader InferIn Api Endpoint HeaderParam None
          = InferIn (provider ApiTypeScriptSchema) (operand hv)
      \<and> ApiInferEndpointOutputHeader InferOut Api Endpoint HeaderParam None
          = InferOut (provider ApiTypeScriptSchema) (operand hv))
   \<and> (cookies ep CookieParam = Some cv \<and> parameterSchemaType cv = None \<longrightarrow>
        ApiInferEndpointInputCookie InferIn Api Endpoint CookieParam None
          = InferIn (provider ApiTypeScriptSchema) (operand cv)
      \<and> ApiInferEndpointOutputCookie InferOut Api Endpoint CookieParam None
          = InferOut (provider ApiTypeScriptSchema) (operand cv))
   \<and> (responses ep StatusCode = Some rv \<and> parameterSchemaType rv = None \<longrightarrow>
        ApiInferEndpointInputResponse InferIn Api Endpoint StatusCode None
          = InferIn (provider ApiTypeScriptSchema) (operand rv)
      \<and> ApiInferEndpointOutputResponse InferOut Api Endpoint StatusCode None
          = InferOut (provider ApiTypeScriptSchema) (operand rv))
   \<and> ApiGetSchemaType Api None = ApiGetSchemaType Api (Some ApiTypeScriptSchema)
   \<and> ApiGetEndpointSchemaType Api Endpoint None
       = ApiGetEndpointSchemaType Api Endpoint (Some ApiTypeScriptSchema)
   \<and> ApiGetEndpointBodySchemaType Api Endpoint None
       = ApiGetEndpointBodySchemaType Api Endpoint (Some ApiTypeScriptSchema)
   \<and> ApiGetEndpointEntrySchemaType Api Endpoint Entry EntryParam None
       = ApiGetEndpointEntrySchemaType Api Endpoint Entry EntryParam (Some ApiTypeScriptSchema)
   \<and> ApiInferEndpointBody InferIn Api Endpoint None
       = ApiInferEndpointBody InferIn Api Endpoint (Some ApiTypeScriptSchema)
   \<and> ApiInferEndpointInputEntry InferIn Api Endpoint Entry EntryParam None
       = ApiInferEndpointInputEntry InferIn Api Endpoint Entry EntryParam
           (Some ApiTypeScriptSchema)
   \<and> ApiInferEndpointOutputEntry InferOut Api Endpoint Entry EntryParam None
       = ApiInferEndpointOutputEntry InferOut Api Endpoint Entry EntryParam
           (Some ApiTypeScriptSchema)
   \<and> ApiInferEndpointInputParam InferIn Api Endpoint EntryParam None
           = ApiInferEndpointInputParam InferIn Api Endpoint EntryParam (Some ApiTypeScriptSchema)
   \<and> ApiInferEndpointInputQuery InferIn Api Endpoint EntryParam None
           = ApiInferEndpointInputQuery InferIn Api Endpoint EntryParam (Some ApiTypeScriptSchema)
   \<and> ApiInferEndpointInputHeader InferIn Api Endpoint EntryParam None
           = ApiInferEndpointInputHeader InferIn Api Endpoint EntryParam
               (Some ApiTypeScriptSchema)
   \<and> ApiInferEndpointInputCookie InferIn Api Endpoint EntryParam None
           = ApiInferEndpointInputCookie InferIn Api Endpoint EntryParam
               (Some ApiTypeScriptSchema)
   \<and> ApiInferEndpointInputResponse InferIn Api Endpoint EntryParam None
           = ApiInferEndpointInputResponse InferIn Api Endpoint EntryParam
               (Some ApiTypeScriptSchema)
   \<and> ApiInferEndpointOutputParam InferOut Api Endpoint EntryParam None
           = ApiInferEndpointOutputParam InferOut Api Endpoint EntryParam
               (Some ApiTypeScriptSchema)
   \<and> ApiInferEndpointOutputQuery InferOut Api Endpoint EntryParam None
           = ApiInferEndpointOutputQuery InferOut Api Endpoint EntryParam
               (Some ApiTypeScriptSchema)
   \<and> ApiInferEndpointOutputHeader InferOut Api Endpoint EntryParam None
           = ApiInferEndpointOutputHeader InferOut Api Endpoint EntryParam
               (Some ApiTypeScriptSchema)
   \<and> ApiInferEndpointOutputCookie InferOut Api Endpoint EntryParam None
           = ApiInferEndpointOutputCookie InferOut Api Endpoint EntryParam
               (Some ApiTypeScriptSchema)
   \<and> ApiInferEndpointOutputResponse InferOut Api Endpoint EntryParam None
           = ApiInferEndpointOutputResponse InferOut Api Endpoint EntryParam
               (Some ApiTypeScriptSchema)"
proof -
  note n = assms(2,3)
  have s: "ApiGetSchemaType Api None = ApiTypeScriptSchema"
    using n by (simp add: ApiGetSchemaType_resolve resolveProvider_def DefaultSchemaType_None)
  have e: "ApiGetEndpointSchemaType Api Endpoint None = Inr ApiTypeScriptSchema"
    using assms
    by (simp add: ApiGetEndpointSchemaType_resolve resolveProvider_def DefaultSchemaType_None)
  have b: "ApiGetEndpointBodySchemaType Api Endpoint None = Inr ApiTypeScriptSchema
      \<and> ApiInferEndpointBody InferIn Api Endpoint None
          = InferIn (provider ApiTypeScriptSchema) (operand (body ep))"
    if "parameterSchemaType (body ep) = None"
  proof -
    have r: "ApiGetEndpointBodySchemaType Api Endpoint None = Inr ApiTypeScriptSchema"
      using assms that
      by (simp add: ApiGetEndpointBodySchemaType_resolve resolveProvider_def
          DefaultSchemaType_None)
    with ApiInferEndpointBody_operand [OF assms(1) r, of InferIn] show ?thesis by simp
  qed
  have k: "ApiGetEndpointEntrySchemaType Api Endpoint K N None = Inr ApiTypeScriptSchema
      \<and> ApiInferEndpointInputEntry InferIn Api Endpoint K N None
          = InferIn (provider ApiTypeScriptSchema) (operand w)
      \<and> ApiInferEndpointOutputEntry InferOut Api Endpoint K N None
          = InferOut (provider ApiTypeScriptSchema) (operand w)"
    if "entry ep K N = Some w" and "parameterSchemaType w = None" for K N w
    using omitted_entry [OF assms that, where dflt = None and InferIn = InferIn
        and InferOut = InferOut] by (simp add: DefaultSchemaType_None)
  have wParam: "ApiInferEndpointInputParam InferIn Api Endpoint PathParam None
          = InferIn (provider ApiTypeScriptSchema) (operand pv)
      \<and> ApiInferEndpointOutputParam InferOut Api Endpoint PathParam None
          = InferOut (provider ApiTypeScriptSchema) (operand pv)"
    if "params ep PathParam = Some pv" and "parameterSchemaType pv = None"
    using omitted_entry [OF assms, where Entry = Params and EntryParam = PathParam and v = pv
        and dflt = "Some (DefaultSchemaType None)" and InferIn = InferIn
        and InferOut = InferOut] that
    by (simp add: ApiInferEndpointInputParam_def ApiInferEndpointOutputParam_def
        DefaultSchemaType_None)
  have wQuery: "ApiInferEndpointInputQuery InferIn Api Endpoint QueryParam None
          = InferIn (provider ApiTypeScriptSchema) (operand qv)
      \<and> ApiInferEndpointOutputQuery InferOut Api Endpoint QueryParam None
          = InferOut (provider ApiTypeScriptSchema) (operand qv)"
    if "query ep QueryParam = Some qv" and "parameterSchemaType qv = None"
    using omitted_entry [OF assms, where Entry = Query and EntryParam = QueryParam and v = qv
        and dflt = "Some (DefaultSchemaType None)" and InferIn = InferIn
        and InferOut = InferOut] that
    by (simp add: ApiInferEndpointInputQuery_def ApiInferEndpointOutputQuery_def
        DefaultSchemaType_None)
  have wHeader: "ApiInferEndpointInputHeader InferIn Api Endpoint HeaderParam None
          = InferIn (provider ApiTypeScriptSchema) (operand hv)
      \<and> ApiInferEndpointOutputHeader InferOut Api Endpoint HeaderParam None
          = InferOut (provider ApiTypeScriptSchema) (operand hv)"
    if "headers ep HeaderParam = Some hv" and "parameterSchemaType hv = None"
    using omitted_entry [OF assms, where Entry = Headers and EntryParam = HeaderParam and v = hv
        and dflt = "Some (DefaultSchemaType None)" and InferIn = InferIn
        and InferOut = InferOut] that
    by (simp add: ApiInferEndpointInputHeader_def ApiInferEndpointOutputHeader_def
        DefaultSchemaType_None)
  have wCookie: "ApiInferEndpointInputCookie InferIn Api Endpoint CookieParam None
          = InferIn (provider ApiTypeScriptSchema) (operand cv)
      \<and> ApiInferEndpointOutputCookie InferOut Api Endpoint CookieParam None
          = InferOut (provider ApiTypeScriptSchema) (operand cv)"
    if "cookies ep CookieParam = Some cv" and "parameterSchemaType cv = None"
    using omitted_entry [OF assms, where Entry = Cookies and EntryParam = CookieParam and v = cv
        and dflt = "Some (DefaultSchemaType None)" and InferIn = InferIn
        and InferOut = InferOut] that
    by (simp add: ApiInferEndpointInputCookie_def ApiInferEndpointOutputCookie_def
        DefaultSchemaType_None)
  have wResponse: "ApiInferEndpointInputResponse InferIn Api Endpoint StatusCode None
          = InferIn (provider ApiTypeScriptSchema) (operand rv)
      \<and> ApiInferEndpointOutputResponse InferOut Api Endpoint StatusCode None
          = InferOut (provider ApiTypeScriptSchema) (operand rv)"
    if "responses ep StatusCode = Some rv" and "parameterSchemaType rv = None"
    using omitted_entry [OF assms, where Entry = Responses and EntryParam = StatusCode and v = rv
        and dflt = "Some (DefaultSchemaType None)" and InferIn = InferIn
        and InferOut = InferOut] that
    by (simp add: ApiInferEndpointInputResponse_def ApiInferEndpointOutputResponse_def
        DefaultSchemaType_None)
  note same = omitted_is_supplied [of Api Endpoint Entry EntryParam InferIn InferOut]
  show ?thesis
    by (intro conjI impI s e DefaultSchemaType_None)
       (use b k wParam wQuery wHeader wCookie wResponse same in blast)+
qed

theorem default_is_typescript_witness:
  "ApiGetSchemaType D0 None = ApiTypeScriptSchema
   \<and> ApiGetEndpointSchemaType D0 ''ping'' None = Inr ApiTypeScriptSchema
   \<and> ApiGetEndpointBodySchemaType D0 ''ping'' None = Inr ApiTypeScriptSchema
   \<and> ApiInferEndpointBody (builtin ''in'') D0 ''ping'' None = Inr ''in:undefined''
   \<and> ApiGetEndpointEntrySchemaType D0 ''ping'' Headers ''accept'' None
       = Inr ApiTypeScriptSchema
   \<and> ApiInferEndpointInputEntry (builtin ''in'') D0 ''ping'' Headers ''accept'' None
       = Inr ''in:string''
   \<and> ApiInferEndpointOutputEntry (builtin ''out'') D0 ''ping'' Headers ''accept'' None
       = Inr ''out:string''
   \<and> ApiInferEndpointInputParam (builtin ''in'') D0 ''ping'' ''id'' None = Inr ''in:string''
   \<and> ApiInferEndpointOutputParam (builtin ''out'') D0 ''ping'' ''id'' None = Inr ''out:string''
   \<and> ApiInferEndpointInputQuery (builtin ''in'') D0 ''ping'' ''page'' None = Inr ''in:number''
   \<and> ApiInferEndpointOutputQuery (builtin ''out'') D0 ''ping'' ''page'' None
       = Inr ''out:number''
   \<and> ApiInferEndpointInputHeader (builtin ''in'') D0 ''ping'' ''accept'' None
       = Inr ''in:string''
   \<and> ApiInferEndpointOutputHeader (builtin ''out'') D0 ''ping'' ''accept'' None
       = Inr ''out:string''
   \<and> ApiInferEndpointInputCookie (builtin ''in'') D0 ''ping'' ''session'' None
       = Inr ''in:token''
   \<and> ApiInferEndpointOutputCookie (builtin ''out'') D0 ''ping'' ''session'' None
       = Inr ''out:token''
   \<and> ApiInferEndpointInputResponse (builtin ''in'') D0 ''ping'' ''200'' None
       = Inr ''in:pong''
   \<and> ApiInferEndpointOutputResponse (builtin ''out'') D0 ''ping'' ''200'' None
       = Inr ''out:pong''"
  using default_is_typescript [where Api = D0 and Endpoint = "''ping''" and ep = ping
      and InferIn = "builtin ''in''" and InferOut = "builtin ''out''"
      and Entry = Headers and EntryParam = "''accept''"
      and v = "Parameter (Schema ''string'') (Some (ApiBaseMetadata None))"
      and PathParam = "''id''" and pv = "Parameter (Schema ''string'') None"
      and QueryParam = "''page''" and qv = "Schema ''number''"
      and HeaderParam = "''accept''"
      and hv = "Parameter (Schema ''string'') (Some (ApiBaseMetadata None))"
      and CookieParam = "''session''" and cv = "Parameter (Schema ''token'') None"
      and StatusCode = "''200''" and rv = "Parameter (Schema ''pong'') None"]
  by (simp add: D0_def ping_def declaredSchemaType_def builtin_def)

end
